theory Spec2Isabelle
  imports Complex_Main "HOL-Library.Sublist" "HOL-Library.Word"
begin

section \<open>JavaScript values\<close>

text \<open>
  The service replies are read with \<^verbatim>\<open>JSON.parse(response.text) as MathSolution\<close>: the
  cast is unchecked, so at run time a solution, a question or a grading result is whatever
  JSON value the service sent. \<open>JNull\<close> is JavaScript's \<^verbatim>\<open>null\<close> (also the initial value
  of the \<^verbatim>\<open>solution\<close>, \<^verbatim>\<open>question\<close> and \<^verbatim>\<open>grading\<close> state variables), \<open>JUndefined\<close> is what
  reading a property an object does not have gives. Numbers are reals: no function of the
  model inspects one beyond its being zero.
\<close>

datatype js_value =
    JUndefined
  | JNull
  | JBool bool
  | JNumber real
  | JString string
  | JArray "js_value list"
  | JObject "(string \<times> js_value) list"

text \<open>Truthiness, as \<^verbatim>\<open>!x\<close>, \<^verbatim>\<open>x && y\<close>, \<^verbatim>\<open>x || y\<close> and \<^verbatim>\<open>if (x)\<close> test it.\<close>

fun truthy :: "js_value \<Rightarrow> bool" where
  "truthy JUndefined = False"
| "truthy JNull = False"
| "truthy (JBool b) = b"
| "truthy (JNumber x) = (x \<noteq> 0)"
| "truthy (JString s) = (s \<noteq> [])"
| "truthy (JArray xs) = True"
| "truthy (JObject kvs) = True"

text \<open>Truthiness of a state variable of type \<^verbatim>\<open>string | null\<close> (or \<^verbatim>\<open>string | undefined\<close>).\<close>

fun truthy_str :: "string option \<Rightarrow> bool" where
  "truthy_str None = False"
| "truthy_str (Some s) = (s \<noteq> [])"

text \<open>
  \<^verbatim>\<open>v.k\<close> for a data property \<open>k\<close> that no prototype defines (\<^verbatim>\<open>latex\<close>, \<^verbatim>\<open>cleanedLatex\<close>,
  \<^verbatim>\<open>originalLatex\<close>, \<^verbatim>\<open>finalAnswer\<close>, \<^verbatim>\<open>steps\<close>) and a value \<open>v\<close> that is neither
  \<^verbatim>\<open>null\<close> nor \<^verbatim>\<open>undefined\<close>: the property of an object, \<^verbatim>\<open>undefined\<close> on every other value.
\<close>

fun get_field :: "string \<Rightarrow> js_value \<Rightarrow> js_value" where
  "get_field k (JObject kvs) = (case map_of kvs k of None \<Rightarrow> JUndefined | Some v \<Rightarrow> v)"
| "get_field k v = JUndefined"

text \<open>\<^verbatim>\<open>a || b\<close>.\<close>

definition js_or :: "js_value \<Rightarrow> js_value \<Rightarrow> js_value" where
  "js_or a b = (if truthy a then a else b)"

text \<open>\<^verbatim>\<open>s.split(c)\<close> for a separator of one character: never the empty list.\<close>

fun js_split :: "char \<Rightarrow> string \<Rightarrow> string list" where
  "js_split c [] = [[]]"
| "js_split c (x # xs) =
     (if x = c then [] # js_split c xs
      else (case js_split c xs of
              [] \<Rightarrow> [[x]]
            | y # ys \<Rightarrow> (x # y) # ys))"

text \<open>\<^verbatim>\<open>xs[i]\<close>: \<^verbatim>\<open>undefined\<close> (here \<open>None\<close>) out of range.\<close>

definition js_index :: "'a list \<Rightarrow> nat \<Rightarrow> 'a option" where
  "js_index xs i = (if i < length xs then Some (xs ! i) else None)"

text \<open>
  The answer text is the one string whose characters the code inspects one by one (with
  \<^verbatim>\<open>trim\<close>), so it is modelled as JavaScript has it, a sequence of UTF-16 code units.
  Every other string is only compared, split at an ASCII separator or tested for being
  empty.
\<close>

type_synonym code_unit = "16 word"

text \<open>
  \<^verbatim>\<open>s.trim()\<close> removes at both ends the code units that are ECMAScript WhiteSpace or
  LineTerminator: tab, line feed, vertical tab, form feed, carriage return, space,
  no-break space (U+00A0), U+FEFF, the line and paragraph separators (U+2028, U+2029),
  and the other space separators of Unicode (U+1680, U+2000 to U+200A, U+202F, U+205F,
  U+3000).
\<close>

definition is_space :: "code_unit \<Rightarrow> bool" where
  "is_space c =
     (c \<in> {0x0009, 0x000A, 0x000B, 0x000C, 0x000D, 0x0020, 0x00A0, 0x1680,
            0x2028, 0x2029, 0x202F, 0x205F, 0x3000, 0xFEFF}
      \<or> (0x2000 \<le> c \<and> c \<le> 0x200A))"

definition js_trim :: "code_unit list \<Rightarrow> code_unit list" where
  "js_trim s = rev (dropWhile is_space (rev (dropWhile is_space s)))"

section \<open>The service client (services/geminiService)\<close>

text \<open>
  What a \<^verbatim>\<open>throw\<close> carries. \<open>JsError m\<close> is \<^verbatim>\<open>new Error(m)\<close>, the only exception this
  repository creates; \<open>Thrown d\<close> is an exception raised by library code (the SDK's
  transport, \<^verbatim>\<open>JSON.parse\<close>), described by \<open>d\<close>.
\<close>

datatype exn = JsError string | Thrown string

text \<open>
  What the one call \<^verbatim>\<open>await ai.models.generateContent(...)\<close> of a client function yields:
  the promise rejects, or it fulfils with a response. Of the response the code reads
  \<^verbatim>\<open>response.text\<close> (a string, or \<^verbatim>\<open>undefined\<close>) and \<^verbatim>\<open>JSON.parse(response.text)\<close>.
  \<^verbatim>\<open>JSON.parse\<close> is the runtime's, not this repository's: the reply carries the text
  together with what \<^verbatim>\<open>JSON.parse\<close> makes of it (a \<^verbatim>\<open>SyntaxError\<close>, or the value).
\<close>

datatype reply =
    Rejected exn
  | Responded (response_text: "string option") (JSON_parse: "exn + js_value")

text \<open>The requests sent to the service, by what distinguishes them.\<close>

datatype request =
    SolveRequest (inline_mimeType: "string option") (inline_data: "string option")
  | QuestionRequest (contents: string)
  | GradeRequest (questionLatex: js_value) (userAnswerText: "code_unit list")
      (image_mentioned: bool) (inline_image: "(string \<times> string) option")

text \<open>
  \<^verbatim>\<open>solveMathProblem(base64Image, mimeType)\<close>: the request it sends, and its result for
  each reply. The \<^verbatim>\<open>catch\<close> block logs and rethrows, so every exception passes through.
  Either argument is \<^verbatim>\<open>undefined\<close> (\<open>None\<close>) when the caller's \<^verbatim>\<open>split(...)[1]\<close> found no
  second part.
\<close>

definition solve_request :: "string option \<Rightarrow> string option \<Rightarrow> request" where
  "solve_request base64Image mimeType = SolveRequest mimeType base64Image"

definition solve_result :: "reply \<Rightarrow> exn + js_value" where
  "solve_result r =
     (case r of
        Rejected e \<Rightarrow> Inl e
      | Responded body parsed \<Rightarrow>
          (if truthy_str body then parsed else Inl (JsError ''No response text'')))"

definition solveMathProblem ::
  "string option \<Rightarrow> string option \<Rightarrow> reply \<Rightarrow> request list \<times> (exn + js_value)" where
  "solveMathProblem base64Image mimeType r =
     ([solve_request base64Image mimeType], solve_result r)"

text \<open>
  \<^verbatim>\<open>generatePracticeQuestion(difficulty)\<close>. The parameter's type is
  \<^verbatim>\<open>'Easy' | 'Medium' | 'Hard'\<close>, which exists at compile time only: at run time the
  \<^verbatim>\<open>switch\<close> compares whatever value it is given with \<^verbatim>\<open>===\<close>, in the order Easy, Hard,
  then \<^verbatim>\<open>case 'Medium': default:\<close>.
\<close>

definition easy_prompt :: string where
  "easy_prompt =
     ''Generate a random simple algebra math practice problem suitable for beginners (e.g., linear equations, basic factorization, simple arithmetic).''"

definition hard_prompt :: string where
  "hard_prompt =
     ''Generate a challenging random math practice problem suitable for advanced college level (e.g., Differential Equations, Complex Integrals, Eigenvalues/Eigenvectors, Multivariable Calculus).''"

definition medium_prompt :: string where
  "medium_prompt =
     ''Generate a random math practice problem suitable for high school or early college level (e.g., Calculus limits/derivatives, quadratic equations, basic matrices).''"

definition difficultyPrompt :: "js_value \<Rightarrow> string" where
  "difficultyPrompt d =
     (if d = JString ''Easy'' then easy_prompt
      else if d = JString ''Hard'' then hard_prompt
      else medium_prompt)"

definition question_result :: "reply \<Rightarrow> exn + js_value" where
  "question_result r =
     (case r of
        Rejected e \<Rightarrow> Inl e
      | Responded body parsed \<Rightarrow>
          (if truthy_str body then parsed else Inl (JsError ''Failed to generate question'')))"

definition generatePracticeQuestion ::
  "js_value \<Rightarrow> reply \<Rightarrow> request list \<times> (exn + js_value)" where
  "generatePracticeQuestion d r = ([QuestionRequest (difficultyPrompt d)], question_result r)"

text \<open>
  \<^verbatim>\<open>gradeAnswer(questionLatex, userAnswerText, userAnswerImage?, mimeType?)\<close>. The prompt
  is built from the question, the answer text and whether an image was given; the image
  itself is attached when \<^verbatim>\<open>userAnswerImage && mimeType\<close>.
\<close>

definition grade_result :: "reply \<Rightarrow> exn + js_value" where
  "grade_result r =
     (case r of
        Rejected e \<Rightarrow> Inl e
      | Responded body parsed \<Rightarrow>
          (if truthy_str body then parsed else Inl (JsError ''Failed to grade'')))"

definition gradeAnswer ::
  "js_value \<Rightarrow> code_unit list \<Rightarrow> string option \<Rightarrow> string option \<Rightarrow> reply
     \<Rightarrow> request list \<times> (exn + js_value)" where
  "gradeAnswer qLatex answer userAnswerImage mimeType r =
     ([GradeRequest qLatex answer (truthy_str userAnswerImage)
         (case (userAnswerImage, mimeType) of
            (Some img, Some mt) \<Rightarrow> if img \<noteq> [] \<and> mt \<noteq> [] then Some (mt, img) else None
          | _ \<Rightarrow> None)],
      grade_result r)"

section \<open>The solver (App)\<close>

datatype ProcessingStage =
  Idle | Preprocessing | Ocr | Parsing | Solving | Complete | Error

text \<open>
  The component's state variables, and two logs that no code reads: every stage
  \<^verbatim>\<open>setProcessingStage\<close> has been called with, and every request sent, oldest first.
\<close>

record app_state =
  image_st :: "string option"
  processingStage :: ProcessingStage
  solution :: js_value
  error :: "string option"
  stage_log :: "ProcessingStage list"
  network_log :: "request list"

definition initial_app :: app_state where
  "initial_app =
     \<lparr>image_st = None, processingStage = Idle, solution = JNull, error = None,
      stage_log = [], network_log = []\<rparr>"

definition setProcessingStage :: "ProcessingStage \<Rightarrow> app_state \<Rightarrow> app_state" where
  "setProcessingStage st s = s\<lparr>processingStage := st, stage_log := stage_log s @ [st]\<rparr>"

definition send :: "request list \<Rightarrow> app_state \<Rightarrow> app_state" where
  "send reqs s = s\<lparr>network_log := network_log s @ reqs\<rparr>"

text \<open>
  A selected file: \<^verbatim>\<open>file.type\<close>, and what \<^verbatim>\<open>readAsDataURL\<close> hands to \<^verbatim>\<open>onload\<close>
  (\<open>None\<close> when the read fails and \<^verbatim>\<open>onload\<close> never runs). The read is taken to finish
  before the next user action.
\<close>

record File =
  file_type :: string
  file_data_url :: "string option"

definition invalid_image_message :: string where
  "invalid_image_message = ''Please upload a valid image file.''"

definition processFile :: "File \<Rightarrow> app_state \<Rightarrow> app_state" where
  "processFile file s =
     (let s1 = s\<lparr>solution := JNull\<rparr>;
          s2 = s1\<lparr>error := None\<rparr>;
          s3 = setProcessingStage Idle s2
      in if \<not> prefix ''image/'' (file_type file)
         then s3\<lparr>error := Some invalid_image_message\<rparr>
         else (case file_data_url file of
                 None \<Rightarrow> s3
               | Some url \<Rightarrow> s3\<lparr>image_st := Some url\<rparr>))"

definition failed_message :: string where
  "failed_message =
     ''Failed to process image. Please try a clearer image or ensure it contains a valid math problem.''"

text \<open>\<^verbatim>\<open>image.split(',')[1]\<close> and \<^verbatim>\<open>image.split(';')[0].split(':')[1]\<close>.\<close>

definition base64Data_of :: "string \<Rightarrow> string option" where
  "base64Data_of img = js_index (js_split (CHR '','') img) 1"

definition mimeType_of :: "string \<Rightarrow> string option" where
  "mimeType_of img =
     (case js_split (CHR '';'') img of
        [] \<Rightarrow> None
      | h # t \<Rightarrow> js_index (js_split (CHR '':'') h) 1)"

text \<open>
  \<^verbatim>\<open>handleSolve\<close>, run from the click to its end with no other event in between. \<open>r\<close> is
  the reply to the request it sends. The three timers only wait.
\<close>

definition handleSolve :: "reply \<Rightarrow> app_state \<Rightarrow> app_state" where
  "handleSolve r s =
     (case image_st s of
        None \<Rightarrow> s
      | Some img \<Rightarrow>
          if img = [] then s
          else
            (let s1 = s\<lparr>error := None\<rparr>;
                 s2 = setProcessingStage Preprocessing s1;
                 s3 = setProcessingStage Ocr s2;
                 base64Data = base64Data_of img;
                 mimeType = mimeType_of img;
                 s4 = setProcessingStage Parsing s3;
                 call = solveMathProblem base64Data mimeType r;
                 s5 = send (fst call) s4
             in (case snd call of
                   Inr result \<Rightarrow>
                     (let s6 = setProcessingStage Solving s5;
                          s7 = setProcessingStage Complete s6
                      in s7\<lparr>solution := result\<rparr>)
                 | Inl err \<Rightarrow>
                     (let s6 = setProcessingStage Error s5
                      in s6\<lparr>error := Some failed_message\<rparr>))))"

definition clearImage :: "app_state \<Rightarrow> app_state" where
  "clearImage s =
     (let s1 = s\<lparr>image_st := None\<rparr>;
          s2 = s1\<lparr>solution := JNull\<rparr>;
          s3 = setProcessingStage Idle s2
      in s3\<lparr>error := None\<rparr>)"

text \<open>
  What the solver's markup lets the user do. The "Start Pipeline" button, the only caller
  of \<^verbatim>\<open>handleSolve\<close>, is rendered under \<^verbatim>\<open>image && processingStage === 'idle'\<close>; the
  clear button whenever an image is loaded; the file input is opened from the upload area
  (no image loaded) or from "Try Different Image" (same condition as the start button).
\<close>

definition solve_button_shown :: "app_state \<Rightarrow> bool" where
  "solve_button_shown s = (truthy_str (image_st s) \<and> processingStage s = Idle)"

definition clear_button_shown :: "app_state \<Rightarrow> bool" where
  "clear_button_shown s = truthy_str (image_st s)"

definition upload_shown :: "app_state \<Rightarrow> bool" where
  "upload_shown s = (\<not> truthy_str (image_st s) \<or> solve_button_shown s)"

subsection \<open>A solve in flight\<close>

text \<open>
  \<^verbatim>\<open>handleSolve\<close> is asynchronous: it gives control back at each \<^verbatim>\<open>await\<close> (three
  timers and the service call), and the user's actions run in between. A run in flight
  is the \<^verbatim>\<open>await\<close> it stands at, with what its closure holds: the image it was started
  on, or the result it received. \<open>start_solve\<close> is \<^verbatim>\<open>handleSolve\<close> up to its first
  \<^verbatim>\<open>await\<close>; \<open>timer_fires\<close> and \<open>reply_arrives\<close> run it from one \<^verbatim>\<open>await\<close> to the next
  (\<open>None\<close>: the run does not wait for that). No order between the timers of different
  runs is imposed.
\<close>

datatype run = InPreprocessing string | InOcr string | InParsing | InSolving js_value

definition start_solve :: "app_state \<Rightarrow> app_state \<times> run option" where
  "start_solve s =
     (case image_st s of
        None \<Rightarrow> (s, None)
      | Some img \<Rightarrow>
          if img = [] then (s, None)
          else (setProcessingStage Preprocessing (s\<lparr>error := None\<rparr>), Some (InPreprocessing img)))"

fun timer_fires :: "run \<Rightarrow> app_state \<Rightarrow> (app_state \<times> run option) option" where
  "timer_fires (InPreprocessing img) s = Some (setProcessingStage Ocr s, Some (InOcr img))"
| "timer_fires (InOcr img) s =
     Some (send [solve_request (base64Data_of img) (mimeType_of img)]
             (setProcessingStage Parsing s),
           Some InParsing)"
| "timer_fires InParsing s = None"
| "timer_fires (InSolving result) s =
     Some ((setProcessingStage Complete s)\<lparr>solution := result\<rparr>, None)"

fun reply_arrives :: "reply \<Rightarrow> run \<Rightarrow> app_state \<Rightarrow> (app_state \<times> run option) option" where
  "reply_arrives r InParsing s =
     (case solve_result r of
        Inr result \<Rightarrow> Some (setProcessingStage Solving s, Some (InSolving result))
      | Inl err \<Rightarrow> Some ((setProcessingStage Error s)\<lparr>error := Some failed_message\<rparr>, None))"
| "reply_arrives r p s = None"

text \<open>
  The events of the page: the user's three actions, each where the markup offers it, and
  the continuation of the \<open>i\<close>-th run in flight (in the order the runs were started).
  An event that cannot happen in a configuration gives \<open>None\<close>.
\<close>

datatype event =
    SelectFile File
  | ClickSolve
  | ClickClear
  | TimerFires nat
  | ReplyArrives nat reply

definition put_run :: "nat \<Rightarrow> run option \<Rightarrow> run list \<Rightarrow> run list" where
  "put_run i p runs =
     (case p of
        None \<Rightarrow> take i runs @ drop (Suc i) runs
      | Some p' \<Rightarrow> runs[i := p'])"

fun step :: "event \<Rightarrow> app_state \<times> run list \<Rightarrow> (app_state \<times> run list) option" where
  "step (SelectFile file) (s, runs) =
     (if upload_shown s then Some (processFile file s, runs) else None)"
| "step ClickSolve (s, runs) =
     (if solve_button_shown s
      then (case start_solve s of
              (s', None) \<Rightarrow> Some (s', runs)
            | (s', Some p) \<Rightarrow> Some (s', runs @ [p]))
      else None)"
| "step ClickClear (s, runs) =
     (if clear_button_shown s then Some (clearImage s, runs) else None)"
| "step (TimerFires i) (s, runs) =
     (if i < length runs
      then (case timer_fires (runs ! i) s of
              None \<Rightarrow> None
            | Some (s', p) \<Rightarrow> Some (s', put_run i p runs))
      else None)"
| "step (ReplyArrives i r) (s, runs) =
     (if i < length runs
      then (case reply_arrives r (runs ! i) s of
              None \<Rightarrow> None
            | Some (s', p) \<Rightarrow> Some (s', put_run i p runs))
      else None)"

fun exec :: "event list \<Rightarrow> app_state \<times> run list \<Rightarrow> (app_state \<times> run list) option" where
  "exec [] c = Some c"
| "exec (e # es) c = (case step e c of None \<Rightarrow> None | Some c' \<Rightarrow> exec es c')"

text \<open>
  A session in which no solve is started while another is in flight. Clearing and
  selecting a file during a run are allowed.
\<close>

fun one_solve_at_a_time :: "event list \<Rightarrow> app_state \<times> run list \<Rightarrow> bool" where
  "one_solve_at_a_time [] c = True"
| "one_solve_at_a_time (e # es) c =
     ((if e = ClickSolve then snd c = [] else True)
      \<and> (case step e c of None \<Rightarrow> True | Some c' \<Rightarrow> one_solve_at_a_time es c'))"

text \<open>
  What such a session keeps true: at most one run in flight, no solution while it is in
  flight, and a solution only at the stage complete.
\<close>

definition solve_inv :: "app_state \<times> run list \<Rightarrow> bool" where
  "solve_inv c =
     (length (snd c) \<le> 1
      \<and> (snd c \<noteq> [] \<longrightarrow> solution (fst c) = JNull)
      \<and> (solution (fst c) \<noteq> JNull \<longrightarrow> processingStage (fst c) = Complete))"

text \<open>
  The stages an uninterrupted solve shows: the stage at the click, then every stage the
  run sets, in order.
\<close>

definition stages_of_solve :: "reply \<Rightarrow> app_state \<Rightarrow> ProcessingStage list" where
  "stages_of_solve r s =
     processingStage s # drop (length (stage_log s)) (stage_log (handleSolve r s))"

subsection \<open>Examples\<close>

text \<open>A character string between double quotes, for the JSON texts below.\<close>

definition quoted :: "string \<Rightarrow> string" where
  "quoted s = CHR 0x22 # s @ [CHR 0x22]"

definition example_solution :: js_value where
  "example_solution =
     JObject [(''originalLatex'', JString ''x+1=2''), (''cleanedLatex'', JString ''x+1=2''),
              (''problemType'', JString ''Algebra''), (''steps'', JArray []),
              (''finalAnswer'', JString ''x=1''), (''confidence'', JNumber 1)]"

definition example_solution_text :: string where
  "example_solution_text =
     ''{'' @ quoted ''originalLatex'' @ '':'' @ quoted ''x+1=2'' @ '','' @
     quoted ''cleanedLatex'' @ '':'' @ quoted ''x+1=2'' @ '','' @
     quoted ''problemType'' @ '':'' @ quoted ''Algebra'' @ '','' @
     quoted ''steps'' @ '':[],'' @
     quoted ''finalAnswer'' @ '':'' @ quoted ''x=1'' @ '','' @
     quoted ''confidence'' @ '':1}''"

definition example_reply :: reply where
  "example_reply = Responded (Some example_solution_text) (Inr example_solution)"

definition png_file :: File where
  "png_file = \<lparr>file_type = ''image/png'', file_data_url = Some ''data:image/png;base64,AAAA''\<rparr>"

definition jpeg_file :: File where
  "jpeg_file = \<lparr>file_type = ''image/jpeg'', file_data_url = Some ''data:image/jpeg;base64,BBBB''\<rparr>"

definition pdf_file :: File where
  "pdf_file = \<lparr>file_type = ''application/pdf'', file_data_url = Some ''data:application/pdf;base64,CCCC''\<rparr>"

definition loaded_app :: app_state where
  "loaded_app = processFile png_file initial_app"

definition solved_app :: app_state where
  "solved_app = handleSolve example_reply loaded_app"

text \<open>
  A session in which a second solve is started while the first still waits for the
  service: load an image, start, wait until the request is out; clear, load another
  image, start again, wait until the second request is out; then the first request is
  answered and its run finishes; then the second request fails.
\<close>

definition stale_run_trace :: "event list" where
  "stale_run_trace =
     [SelectFile png_file, ClickSolve, TimerFires 0, TimerFires 0,
      ClickClear, SelectFile jpeg_file, ClickSolve, TimerFires 1, TimerFires 1,
      ReplyArrives 0 example_reply, TimerFires 0,
      ReplyArrives 0 (Rejected (Thrown ''Failed to fetch''))]"

text \<open>
  A session in which the user clears while the only run waits for the service, and the
  state it leads to.
\<close>

definition cleared_run_trace :: "event list" where
  "cleared_run_trace =
     [SelectFile png_file, ClickSolve, TimerFires 0, TimerFires 0, ClickClear]"

definition cleared_app :: app_state where
  "cleared_app = clearImage (send [solve_request (Some ''AAAA'') (Some ''image/png'')]
     (setProcessingStage Parsing (setProcessingStage Ocr
        (setProcessingStage Preprocessing (loaded_app\<lparr>error := None\<rparr>)))))"

section \<open>The solution display (components/SolutionDisplay)\<close>

text \<open>
  The expression handed to the renderer in the problem card:
  \<^verbatim>\<open>solution.cleanedLatex || solution.originalLatex\<close>. The component is rendered under
  \<^verbatim>\<open>solution && processingStage === 'complete'\<close>, so never on \<^verbatim>\<open>null\<close>.
\<close>

definition displayed_latex :: "js_value \<Rightarrow> js_value" where
  "displayed_latex sol = js_or (get_field ''cleanedLatex'' sol) (get_field ''originalLatex'' sol)"

text \<open>
  A field that holds no expression: not in the object, \<^verbatim>\<open>null\<close>, or the empty string.
\<close>

definition absent :: "js_value \<Rightarrow> bool" where
  "absent v = (v = JUndefined \<or> v = JNull \<or> v = JString [])"

definition is_string :: "js_value \<Rightarrow> bool" where
  "is_string v = (case v of JString s \<Rightarrow> True | _ \<Rightarrow> False)"

section \<open>The practice session (components/PracticeMode)\<close>

datatype Difficulty = Easy | Medium | Hard

fun difficulty_value :: "Difficulty \<Rightarrow> js_value" where
  "difficulty_value Easy = JString ''Easy''"
| "difficulty_value Medium = JString ''Medium''"
| "difficulty_value Hard = JString ''Hard''"

text \<open>
  The component's state variables, and two logs that no code reads: the errors its
  \<^verbatim>\<open>catch\<close> blocks hand to \<^verbatim>\<open>console.error\<close>, and the requests sent.
\<close>

record practice_state =
  question :: js_value
  loading :: bool
  userAnswer :: "code_unit list"
  answerImage :: "string option"
  grading :: js_value
  isGrading :: bool
  difficulty :: Difficulty
  console_log :: "exn list"
  requests_sent :: "request list"

text \<open>
  Each handler is run from its call to its end with no other event in between; \<open>r\<close> is the
  reply to the request it sends. \<^verbatim>\<open>fetchQuestion\<close> and \<^verbatim>\<open>handleSubmit\<close> catch every
  exception, so the promise they return always fulfils, with no value.
\<close>

definition fetchQuestion :: "reply \<Rightarrow> practice_state \<Rightarrow> practice_state" where
  "fetchQuestion r s =
     (let s1 = s\<lparr>loading := True\<rparr>;
          s2 = s1\<lparr>grading := JNull\<rparr>;
          s3 = s2\<lparr>userAnswer := []\<rparr>;
          s4 = s3\<lparr>answerImage := None\<rparr>;
          call = generatePracticeQuestion (difficulty_value (difficulty s)) r;
          s5 = s4\<lparr>requests_sent := requests_sent s4 @ fst call\<rparr>;
          s6 = (case snd call of
                  Inr q \<Rightarrow> s5\<lparr>question := q\<rparr>
                | Inl e \<Rightarrow> s5\<lparr>console_log := console_log s5 @ [e]\<rparr>)
      in s6\<lparr>loading := False\<rparr>)"

text \<open>
  \<^verbatim>\<open>handleDifficultyChange(level)\<close>. The request's promise has a \<^verbatim>\<open>then\<close> and no
  \<^verbatim>\<open>catch\<close>: when it rejects, nothing more runs.
\<close>

definition handleDifficultyChange :: "Difficulty \<Rightarrow> reply \<Rightarrow> practice_state \<Rightarrow> practice_state" where
  "handleDifficultyChange level r s =
     (if difficulty s = level then s
      else
        (let s1 = s\<lparr>difficulty := level\<rparr>
         in if \<not> truthy (grading s) \<and> userAnswer s = [] \<and> \<not> truthy_str (answerImage s)
            then
              (let s2 = s1\<lparr>loading := True\<rparr>;
                   call = generatePracticeQuestion (difficulty_value level) r;
                   s3 = s2\<lparr>requests_sent := requests_sent s2 @ fst call\<rparr>
               in (case snd call of
                     Inr q \<Rightarrow> (s3\<lparr>question := q\<rparr>)\<lparr>loading := False\<rparr>
                   | Inl e \<Rightarrow> s3))
            else s1))"

definition handleSubmit :: "reply \<Rightarrow> practice_state \<Rightarrow> practice_state" where
  "handleSubmit r s =
     (if \<not> truthy (question s) \<or> (js_trim (userAnswer s) = [] \<and> \<not> truthy_str (answerImage s))
      then s
      else
        (let s1 = s\<lparr>isGrading := True\<rparr>;
             imageBase64 = (case answerImage s of
                              None \<Rightarrow> None
                            | Some img \<Rightarrow> if img = [] then None else base64Data_of img);
             mimeType = (case answerImage s of
                           None \<Rightarrow> None
                         | Some img \<Rightarrow> if img = [] then None else mimeType_of img);
             call = gradeAnswer (get_field ''latex'' (question s)) (userAnswer s)
                      imageBase64 mimeType r;
             s2 = s1\<lparr>requests_sent := requests_sent s1 @ fst call\<rparr>;
             s3 = (case snd call of
                     Inr result \<Rightarrow> s2\<lparr>grading := result\<rparr>
                   | Inl e \<Rightarrow> s2\<lparr>console_log := console_log s2 @ [e]\<rparr>)
         in s3\<lparr>isGrading := False\<rparr>))"

text \<open>
  The test at the head of \<^verbatim>\<open>handleSubmit\<close>:
  \<^verbatim>\<open>!question || (!userAnswer.trim() && !answerImage)\<close>.
\<close>

definition submit_blocked :: "practice_state \<Rightarrow> bool" where
  "submit_blocked s =
     (\<not> truthy (question s) \<or> (js_trim (userAnswer s) = [] \<and> \<not> truthy_str (answerImage s)))"

text \<open>
  The two controls that call \<^verbatim>\<open>handleSubmit\<close>: the send button, and the Enter key in
  the answer field. Each has a \<^verbatim>\<open>disabled\<close> attribute.
\<close>

definition submit_button_disabled :: "practice_state \<Rightarrow> bool" where
  "submit_button_disabled s =
     ((js_trim (userAnswer s) = [] \<and> \<not> truthy_str (answerImage s))
      \<or> loading s \<or> isGrading s \<or> truthy (grading s))"

definition answer_field_disabled :: "practice_state \<Rightarrow> bool" where
  "answer_field_disabled s = (loading s \<or> isGrading s \<or> truthy (grading s))"

text \<open>
  A submit as the page delivers it. \<^verbatim>\<open>handleSubmit\<close> is a closure of the component and
  has two callers only: the send button (\<^verbatim>\<open>onClick={handleSubmit}\<close>) and the Enter key in
  the answer field (\<^verbatim>\<open>onKeyDown\<close>), and a disabled control delivers no event.
\<close>

datatype submit_control = SendButton | EnterKey

fun control_disabled :: "submit_control \<Rightarrow> practice_state \<Rightarrow> bool" where
  "control_disabled SendButton s = submit_button_disabled s"
| "control_disabled EnterKey s = answer_field_disabled s"

definition submitAnswer :: "submit_control \<Rightarrow> reply \<Rightarrow> practice_state \<Rightarrow> practice_state" where
  "submitAnswer c r s = (if control_disabled c s then s else handleSubmit r s)"

text \<open>
  When a submit is to be accepted: a question is active, the round is not graded yet, the
  answer has text other than white space or an image, and no request of the round is in
  flight. (A grading result is an object, so one that is present is truthy.)
\<close>

definition submit_accepted :: "practice_state \<Rightarrow> bool" where
  "submit_accepted s =
     (truthy (question s) \<and> \<not> truthy (grading s)
      \<and> (js_trim (userAnswer s) \<noteq> [] \<or> truthy_str (answerImage s))
      \<and> \<not> loading s \<and> \<not> isGrading s)"

text \<open>
  What a grading request carries of an answer image, a data URL: its part after the
  first comma and, of its part before the first semicolon, the part after the first
  colon (each \<open>None\<close> when the URL has no such part); the image is attached when both
  are there and not empty.
\<close>

definition answer_image_data :: "string option \<Rightarrow> string option" where
  "answer_image_data answer_image = Option.bind answer_image base64Data_of"

definition answer_image_type :: "string option \<Rightarrow> string option" where
  "answer_image_type answer_image = Option.bind answer_image mimeType_of"

definition attached_image :: "string option \<Rightarrow> (string \<times> string) option" where
  "attached_image answer_image =
     (case (answer_image_data answer_image, answer_image_type answer_image) of
        (Some d, Some m) \<Rightarrow> if d \<noteq> [] \<and> m \<noteq> [] then Some (m, d) else None
      | _ \<Rightarrow> None)"

text \<open>
  A round nobody has worked on: no grading result (the variable is \<^verbatim>\<open>null\<close>; a falsy
  value counts as none), no typed text (the answer is the empty string), no uploaded
  image.
\<close>

definition untouched :: "practice_state \<Rightarrow> bool" where
  "untouched s = (\<not> truthy (grading s) \<and> userAnswer s = [] \<and> \<not> truthy_str (answerImage s))"

subsection \<open>Examples\<close>

definition example_question :: js_value where
  "example_question =
     JObject [(''id'', JString ''q1''), (''latex'', JString ''2x+3=7''),
              (''difficulty'', JString ''Easy''), (''topic'', JString ''Linear Equations'')]"

definition example_grading :: js_value where
  "example_grading =
     JObject [(''isCorrect'', JBool True), (''score'', JNumber 10),
              (''feedback'', JString ''Correct!''), (''correctSolution'', JString ''x=2'')]"

definition example_grading_text :: string where
  "example_grading_text =
     ''{'' @ quoted ''isCorrect'' @ '':true,'' @ quoted ''score'' @ '':10,'' @
     quoted ''feedback'' @ '':'' @ quoted ''Correct!'' @ '','' @
     quoted ''correctSolution'' @ '':'' @ quoted ''x=2'' @ ''}''"

definition second_grading :: js_value where
  "second_grading =
     JObject [(''isCorrect'', JBool False), (''score'', JNumber 0),
              (''feedback'', JString ''Wrong sign''), (''correctSolution'', JString ''x=2'')]"

definition second_grading_text :: string where
  "second_grading_text =
     ''{'' @ quoted ''isCorrect'' @ '':false,'' @ quoted ''score'' @ '':0,'' @
     quoted ''feedback'' @ '':'' @ quoted ''Wrong sign'' @ '','' @
     quoted ''correctSolution'' @ '':'' @ quoted ''x=2'' @ ''}''"

definition second_question :: js_value where
  "second_question =
     JObject [(''id'', JString ''q2''), (''latex'', JString ''x^2=4''),
              (''difficulty'', JString ''Hard''), (''topic'', JString ''Quadratics'')]"

definition second_question_text :: string where
  "second_question_text =
     ''{'' @ quoted ''id'' @ '':'' @ quoted ''q2'' @ '','' @
     quoted ''latex'' @ '':'' @ quoted ''x^2=4'' @ '','' @
     quoted ''difficulty'' @ '':'' @ quoted ''Hard'' @ '','' @
     quoted ''topic'' @ '':'' @ quoted ''Quadratics'' @ ''}''"

definition fresh_round :: practice_state where
  "fresh_round =
     \<lparr>question = example_question, loading = False, userAnswer = [], answerImage = None,
      grading = JNull, isGrading = False, difficulty = Easy, console_log = [],
      requests_sent = []\<rparr>"

text \<open>The answer \<^verbatim>\<open>x=2\<close>, and an answer of one no-break space.\<close>

definition answer_x_is_2 :: "code_unit list" where
  "answer_x_is_2 = [0x78, 0x3D, 0x32]"

definition answer_nbsp :: "code_unit list" where
  "answer_nbsp = [0xA0]"

definition answered_round :: practice_state where
  "answered_round = fresh_round\<lparr>userAnswer := answer_x_is_2\<rparr>"

definition blank_round :: practice_state where
  "blank_round = fresh_round\<lparr>userAnswer := answer_nbsp\<rparr>"

definition graded_round :: practice_state where
  "graded_round = answered_round\<lparr>grading := example_grading\<rparr>"

section \<open>The solver: theorems\<close>

lemma handleSolve_success:
  assumes "image_st s = Some img" and "img \<noteq> []" and "solve_result r = Inr v"
  shows "handleSolve r s =
           s\<lparr>error := None, processingStage := Complete,
             stage_log := stage_log s @ [Preprocessing, Ocr, Parsing, Solving, Complete],
             network_log := network_log s @ [solve_request (base64Data_of img) (mimeType_of img)],
             solution := v\<rparr>"
  using assms
  by (simp add: handleSolve_def solveMathProblem_def setProcessingStage_def send_def Let_def)

lemma handleSolve_failure:
  assumes "image_st s = Some img" and "img \<noteq> []" and "solve_result r = Inl e"
  shows "handleSolve r s =
           s\<lparr>processingStage := Error,
             stage_log := stage_log s @ [Preprocessing, Ocr, Parsing, Error],
             network_log := network_log s @ [solve_request (base64Data_of img) (mimeType_of img)],
             error := Some failed_message\<rparr>"
  using assms
  by (simp add: handleSolve_def solveMathProblem_def setProcessingStage_def send_def Let_def)

lemma handleSolve_no_image:
  "\<not> truthy_str (image_st s) \<Longrightarrow> handleSolve r s = s"
  by (cases "image_st s") (simp_all add: handleSolve_def)

text \<open>
  Claim C1. Started on a loaded image with the stage at idle, a solve whose request is
  answered with a non-empty text that parses to a payload shows the stages idle,
  preprocessing, ocr, parsing, solving, complete, each once and in this order, and the
  solution published at complete is that payload, unchanged. The code has no validation
  or normalisation step between the parse and the publication, so this holds for every
  payload, a conforming Solution included.
\<close>

theorem handleSolve_stage_sequence:
  assumes "truthy_str (image_st s)" and "processingStage s = Idle"
    and "body \<noteq> []" and "r = Responded (Some body) (Inr payload)"
  shows "stages_of_solve r s = [Idle, Preprocessing, Ocr, Parsing, Solving, Complete]
         \<and> processingStage (handleSolve r s) = Complete
         \<and> solution (handleSolve r s) = payload"
proof -
  from assms(1) obtain img where img: "image_st s = Some img" "img \<noteq> []"
    by (cases "image_st s") auto
  have res: "solve_result r = Inr payload"
    using assms(3,4) by (simp add: solve_result_def)
  show ?thesis
    using assms(2) by (simp add: stages_of_solve_def handleSolve_success [OF img res])
qed

theorem handleSolve_stage_sequence_witness:
  "stages_of_solve example_reply loaded_app = [Idle, Preprocessing, Ocr, Parsing, Solving, Complete]
   \<and> processingStage (handleSolve example_reply loaded_app) = Complete
   \<and> solution (handleSolve example_reply loaded_app) = example_solution"
  by (rule handleSolve_stage_sequence [where body = example_solution_text])
     (simp_all add: loaded_app_def png_file_def processFile_def setProcessingStage_def
        initial_app_def example_reply_def example_solution_text_def quoted_def)

text \<open>
  Claim C7. For a file whose type does not start with \<^verbatim>\<open>image/\<close>, \<^verbatim>\<open>processFile\<close> sends
  no request, sets the invalid-image error message at once, leaves the stage at idle and
  does not load the file as the image; with no image loaded before, the start button is
  not shown, and \<^verbatim>\<open>handleSolve\<close>, were it called, returns at its first line: no request,
  no stage change.
\<close>

theorem processFile_rejects_non_image:
  assumes "\<not> prefix ''image/'' (file_type file)"
  shows "network_log (processFile file s) = network_log s
         \<and> error (processFile file s) = Some invalid_image_message
         \<and> processingStage (processFile file s) = Idle
         \<and> image_st (processFile file s) = image_st s
         \<and> (\<not> truthy_str (image_st s) \<longrightarrow>
              \<not> solve_button_shown (processFile file s)
              \<and> handleSolve r (processFile file s) = processFile file s)"
proof -
  have img: "image_st (processFile file s) = image_st s"
    using assms by (simp add: processFile_def setProcessingStage_def Let_def)
  show ?thesis
    using assms img handleSolve_no_image [of "processFile file s" r]
    by (simp add: processFile_def setProcessingStage_def solve_button_shown_def Let_def)
qed

theorem processFile_rejects_non_image_witness:
  "network_log (processFile pdf_file initial_app) = []
   \<and> error (processFile pdf_file initial_app) = Some invalid_image_message
   \<and> processingStage (processFile pdf_file initial_app) = Idle
   \<and> image_st (processFile pdf_file initial_app) = None
   \<and> \<not> solve_button_shown (processFile pdf_file initial_app)
   \<and> handleSolve example_reply (processFile pdf_file initial_app) = processFile pdf_file initial_app"
  using processFile_rejects_non_image [of pdf_file initial_app example_reply]
  by (simp add: pdf_file_def initial_app_def)

text \<open>
  Claim C10. Whatever the file, \<^verbatim>\<open>processFile\<close> resets the solution to none and the stage
  to idle and clears the error before it looks at the file's type; the only error left
  afterwards is the one a rejected file sets. So selecting a file that is not an image
  discards a solution published before.
\<close>

theorem processFile_resets_session:
  "solution (processFile file s) = JNull
   \<and> processingStage (processFile file s) = Idle
   \<and> error (processFile file s) =
       (if prefix ''image/'' (file_type file) then None else Some invalid_image_message)"
  by (simp add: processFile_def setProcessingStage_def Let_def split: option.splits)

lemma solved_app_eq:
  "solution solved_app = example_solution \<and> processingStage solved_app = Complete"
  by (simp add: solved_app_def loaded_app_def png_file_def processFile_def initial_app_def
      example_reply_def example_solution_text_def quoted_def handleSolve_def
      solveMathProblem_def setProcessingStage_def send_def solve_result_def Let_def)

theorem processFile_resets_session_witness:
  "solution solved_app = example_solution
   \<and> processingStage solved_app = Complete
   \<and> solution (processFile pdf_file solved_app) = JNull
   \<and> processingStage (processFile pdf_file solved_app) = Idle
   \<and> error (processFile pdf_file solved_app) = Some invalid_image_message"
  using processFile_resets_session [of pdf_file solved_app] solved_app_eq
  by (simp add: pdf_file_def)

subsection \<open>Sessions\<close>

text \<open>
  \<open>handleSolve\<close> is the run of the page's events in which nothing comes between the click
  and the end of the solve.
\<close>

lemma exec_uninterrupted_success:
  assumes "solve_button_shown s" and "solve_result r = Inr v"
  shows "exec [ClickSolve, TimerFires 0, TimerFires 0, ReplyArrives 0 r, TimerFires 0] (s, [])
           = Some (handleSolve r s, [])"
proof -
  from assms(1) obtain img where img: "image_st s = Some img" "img \<noteq> []"
    by (cases "image_st s") (auto simp: solve_button_shown_def)
  show ?thesis
    using assms img
    by (simp add: start_solve_def put_run_def handleSolve_def solveMathProblem_def Let_def)
qed

lemma exec_uninterrupted_failure:
  assumes "solve_button_shown s" and "solve_result r = Inl e"
  shows "exec [ClickSolve, TimerFires 0, TimerFires 0, ReplyArrives 0 r] (s, [])
           = Some (handleSolve r s, [])"
proof -
  from assms(1) obtain img where img: "image_st s = Some img" "img \<noteq> []"
    by (cases "image_st s") (auto simp: solve_button_shown_def)
  show ?thesis
    using assms img
    by (simp add: start_solve_def put_run_def handleSolve_def solveMathProblem_def Let_def)
qed

lemma step_preserves_inv:
  assumes "solve_inv c" and "step e c = Some c'" and "e = ClickSolve \<longrightarrow> snd c = []"
  shows "solve_inv c'"
proof -
  obtain s runs where c: "c = (s, runs)" by (cases c)
  show ?thesis
  proof (cases e)
    case (SelectFile f)
    with assms c show ?thesis
      by (auto simp: solve_inv_def processFile_def setProcessingStage_def Let_def
          split: if_splits option.splits)
  next
    case ClickSolve
    with assms c show ?thesis
      by (auto simp: solve_inv_def solve_button_shown_def start_solve_def setProcessingStage_def
          split: if_splits option.splits)
  next
    case ClickClear
    with assms c show ?thesis
      by (auto simp: solve_inv_def clearImage_def setProcessingStage_def Let_def split: if_splits)
  next
    case (TimerFires i)
    with assms c obtain p where runs: "runs = [p]" and i: "i = 0"
      by (cases runs) (auto simp: solve_inv_def split: if_splits)
    from assms c TimerFires runs i show ?thesis
      by (cases p)
         (auto simp: solve_inv_def put_run_def setProcessingStage_def send_def)
  next
    case (ReplyArrives i r)
    with assms c obtain p where runs: "runs = [p]" and i: "i = 0"
      by (cases runs) (auto simp: solve_inv_def split: if_splits)
    from assms c ReplyArrives runs i show ?thesis
      by (cases p)
         (auto simp: solve_inv_def put_run_def setProcessingStage_def split: sum.splits)
  qed
qed

lemma exec_preserves_inv:
  "solve_inv c \<Longrightarrow> one_solve_at_a_time es c \<Longrightarrow> exec es c = Some c' \<Longrightarrow> solve_inv c'"
proof (induction es arbitrary: c)
  case Nil
  then show ?case by simp
next
  case (Cons e es)
  from Cons.prems(3) obtain c1 where st: "step e c = Some c1" and ex: "exec es c1 = Some c'"
    by (auto split: option.splits)
  from Cons.prems(2) st have u: "e = ClickSolve \<longrightarrow> snd c = []"
    and o: "one_solve_at_a_time es c1"
    by (auto split: if_splits)
  from step_preserves_inv [OF Cons.prems(1) st u] have "solve_inv c1" .
  from Cons.IH [OF this o ex] show ?case .
qed

lemma initial_inv: "solve_inv (initial_app, [])"
  by (simp add: solve_inv_def initial_app_def)

text \<open>
  Claim C2, as stated, fails: the session \<open>stale_run_trace\<close> uses file selection, solve
  and clear only, each where the page offers it, and ends with the stage at error, no run
  in flight, and the first run's solution published. Nothing cancels a run when the user
  clears, and a run never checks that it is still the current one, so a second solve can
  be started while the first is in flight.
\<close>

theorem stale_run_counterexample:
  "map_option (\<lambda>(s, runs). (processingStage s, solution s, runs))
     (exec stale_run_trace (initial_app, []))
   = Some (Error, example_solution, [])
   \<and> example_solution \<noteq> JNull"
  by (simp add: stale_run_trace_def png_file_def jpeg_file_def example_reply_def
      example_solution_def example_solution_text_def quoted_def initial_app_def
      upload_shown_def solve_button_shown_def clear_button_shown_def start_solve_def
      put_run_def processFile_def clearImage_def setProcessingStage_def send_def
      solve_result_def Let_def)

lemma stale_run_starts_second_solve:
  "\<not> one_solve_at_a_time stale_run_trace (initial_app, [])"
  by (simp add: stale_run_trace_def png_file_def jpeg_file_def initial_app_def
      upload_shown_def solve_button_shown_def clear_button_shown_def start_solve_def
      put_run_def processFile_def clearImage_def setProcessingStage_def send_def Let_def)

text \<open>
  Claim C2, amended. In every state of a session of file selections, solves and clears
  in which no solve is started while another is still in flight (clearing and selecting
  a file during a run included), a solution is present only at the stage complete, and
  the stage error has none; and a solve whose service call rejects or throws ends at the
  stage error with no solution: both the solve started at the end of such a session and
  run without interruption, and the run that such a session left waiting for the service.
\<close>

theorem one_solve_at_a_time_solution_only_at_complete:
  assumes "exec es (initial_app, []) = Some (s, runs)"
    and "one_solve_at_a_time es (initial_app, [])"
  shows "(solution s \<noteq> JNull \<longrightarrow> processingStage s = Complete)
         \<and> (processingStage s = Error \<longrightarrow> solution s = JNull)
         \<and> (runs = [] \<and> solve_button_shown s \<and> solve_result r = Inl e \<longrightarrow>
              exec [ClickSolve, TimerFires 0, TimerFires 0, ReplyArrives 0 r] (s, runs)
                = Some (handleSolve r s, [])
              \<and> processingStage (handleSolve r s) = Error
              \<and> solution (handleSolve r s) = JNull)
         \<and> (runs = [InParsing] \<and> solve_result r = Inl e \<longrightarrow>
              step (ReplyArrives 0 r) (s, runs)
                = Some ((setProcessingStage Error s)\<lparr>error := Some failed_message\<rparr>, [])
              \<and> solution s = JNull)"
proof -
  have si: "solve_inv (s, runs)"
    using exec_preserves_inv [OF initial_inv assms(2) assms(1)] .
  then have inv: "solution s \<noteq> JNull \<longrightarrow> processingStage s = Complete"
    by (simp add: solve_inv_def)
  have fail: "exec [ClickSolve, TimerFires 0, TimerFires 0, ReplyArrives 0 r] (s, runs)
                = Some (handleSolve r s, [])
              \<and> processingStage (handleSolve r s) = Error
              \<and> solution (handleSolve r s) = JNull"
    if none: "runs = []" and shown: "solve_button_shown s" and res: "solve_result r = Inl e"
  proof -
    from shown obtain img where img: "image_st s = Some img" "img \<noteq> []"
      and idle: "processingStage s = Idle"
      by (cases "image_st s") (auto simp: solve_button_shown_def)
    from inv idle have "solution s = JNull" by auto
    then show ?thesis
      using none exec_uninterrupted_failure [OF shown res]
      by (simp add: handleSolve_failure [OF img res])
  qed
  have late: "step (ReplyArrives 0 r) (s, runs)
                = Some ((setProcessingStage Error s)\<lparr>error := Some failed_message\<rparr>, [])
              \<and> solution s = JNull"
    if "runs = [InParsing]" and "solve_result r = Inl e"
    using that si by (simp add: solve_inv_def put_run_def)
  from inv fail late show ?thesis by auto
qed

lemma loaded_shown: "solve_button_shown loaded_app"
  by (simp add: solve_button_shown_def loaded_app_def png_file_def processFile_def
      setProcessingStage_def initial_app_def Let_def)

lemma exec_select: "exec [SelectFile png_file] (initial_app, []) = Some (loaded_app, [])"
  by (simp add: loaded_app_def upload_shown_def initial_app_def)

lemma exec_select_solve:
  "exec [SelectFile png_file, ClickSolve, TimerFires 0, TimerFires 0,
         ReplyArrives 0 example_reply, TimerFires 0] (initial_app, [])
   = Some (solved_app, [])"
proof -
  have res: "solve_result example_reply = Inr example_solution"
    by (simp add: solve_result_def example_reply_def example_solution_text_def quoted_def)
  have "step (SelectFile png_file) (initial_app, []) = Some (loaded_app, [])"
    by (simp add: loaded_app_def upload_shown_def initial_app_def)
  then show ?thesis
    using exec_uninterrupted_success [OF loaded_shown res]
    by (simp add: solved_app_def)
qed

lemma one_solve_select_solve:
  "one_solve_at_a_time [SelectFile png_file, ClickSolve, TimerFires 0, TimerFires 0,
         ReplyArrives 0 example_reply, TimerFires 0] (initial_app, [])"
  by (simp add: png_file_def example_reply_def example_solution_text_def quoted_def
      initial_app_def upload_shown_def solve_button_shown_def start_solve_def put_run_def
      processFile_def setProcessingStage_def send_def solve_result_def Let_def)

lemma exec_cleared:
  "exec cleared_run_trace (initial_app, []) = Some (cleared_app, [InParsing])"
  by (simp add: cleared_run_trace_def cleared_app_def loaded_app_def png_file_def
      initial_app_def upload_shown_def solve_button_shown_def clear_button_shown_def
      start_solve_def put_run_def processFile_def clearImage_def setProcessingStage_def
      send_def solve_request_def base64Data_of_def mimeType_of_def js_index_def Let_def)

lemma one_solve_cleared: "one_solve_at_a_time cleared_run_trace (initial_app, [])"
  by (simp add: cleared_run_trace_def png_file_def
      initial_app_def upload_shown_def solve_button_shown_def clear_button_shown_def
      start_solve_def put_run_def processFile_def clearImage_def setProcessingStage_def
      send_def Let_def)

theorem one_solve_at_a_time_solution_only_at_complete_witness:
  "solution solved_app = example_solution
   \<and> processingStage solved_app = Complete
   \<and> solve_button_shown loaded_app
   \<and> solve_result (Rejected (Thrown ''Failed to fetch'')) = Inl (Thrown ''Failed to fetch'')
   \<and> processingStage (handleSolve (Rejected (Thrown ''Failed to fetch'')) loaded_app) = Error
   \<and> solution (handleSolve (Rejected (Thrown ''Failed to fetch'')) loaded_app) = JNull
   \<and> exec cleared_run_trace (initial_app, []) = Some (cleared_app, [InParsing])
   \<and> step (ReplyArrives 0 (Rejected (Thrown ''Failed to fetch''))) (cleared_app, [InParsing])
       = Some ((setProcessingStage Error cleared_app)\<lparr>error := Some failed_message\<rparr>, [])
   \<and> solution cleared_app = JNull"
proof -
  have res: "solve_result (Rejected (Thrown ''Failed to fetch'')) = Inl (Thrown ''Failed to fetch'')"
    by (simp add: solve_result_def)
  have one: "one_solve_at_a_time [SelectFile png_file] (initial_app, [])"
    by (simp add: upload_shown_def initial_app_def)
  have sol: "solution solved_app = example_solution"
    using solved_app_eq by simp
  have nn: "example_solution \<noteq> JNull"
    by (simp add: example_solution_def)
  show ?thesis
    using one_solve_at_a_time_solution_only_at_complete [OF exec_select one,
        of "Rejected (Thrown ''Failed to fetch'')" "Thrown ''Failed to fetch''"]
      one_solve_at_a_time_solution_only_at_complete [OF exec_select_solve one_solve_select_solve]
      one_solve_at_a_time_solution_only_at_complete [OF exec_cleared one_solve_cleared,
        of "Rejected (Thrown ''Failed to fetch'')" "Thrown ''Failed to fetch''"]
      loaded_shown res sol nn exec_cleared
    by auto
qed

section \<open>The service client: theorems\<close>

text \<open>
  Claim C3, as stated, fails: the repository has no \<^verbatim>\<open>validateSolution\<close>, and
  \<^verbatim>\<open>solveMathProblem\<close> returns whatever \<^verbatim>\<open>JSON.parse\<close> gives. A response whose text is
  the empty object has neither \<^verbatim>\<open>finalAnswer\<close> nor \<^verbatim>\<open>steps\<close>; it is returned as the
  solution, and \<^verbatim>\<open>handleSolve\<close> publishes it.
\<close>

theorem solveMathProblem_accepts_empty_object:
  "snd (solveMathProblem (Some ''AAAA'') (Some ''image/png'') (Responded (Some ''{}'') (Inr (JObject []))))
     = Inr (JObject [])
   \<and> get_field ''finalAnswer'' (JObject []) = JUndefined
   \<and> get_field ''steps'' (JObject []) = JUndefined
   \<and> solution (handleSolve (Responded (Some ''{}'') (Inr (JObject []))) loaded_app) = JObject []"
  by (simp add: solveMathProblem_def solve_result_def handleSolve_def loaded_app_def
      png_file_def processFile_def initial_app_def setProcessingStage_def send_def Let_def)

text \<open>
  Claim C3, amended. \<^verbatim>\<open>solveMathProblem\<close> checks no field of the payload. It returns a
  payload exactly when the response has a non-empty text that \<^verbatim>\<open>JSON.parse\<close> accepts,
  and then returns the parsed value as it is, whatever its fields (a payload with every
  field present and no steps included). It fails exactly when the request is rejected
  (with the transport's exception), when the response has no text or an empty one (with
  \<^verbatim>\<open>Error("No response text")\<close>), or when \<^verbatim>\<open>JSON.parse\<close> throws (with its exception).
\<close>

theorem solveMathProblem_result_cases:
  "(snd (solveMathProblem b m r) = Inr v \<longleftrightarrow>
      (\<exists>body. body \<noteq> [] \<and> r = Responded (Some body) (Inr v)))
   \<and> (snd (solveMathProblem b m r) = Inl e \<longleftrightarrow>
        (r = Rejected e
         \<or> (\<exists>p. (r = Responded None p \<or> r = Responded (Some []) p)
                 \<and> e = JsError ''No response text'')
         \<or> (\<exists>body. body \<noteq> [] \<and> r = Responded (Some body) (Inl e))))"
proof (cases r)
  case (Rejected x)
  then show ?thesis by (auto simp: solveMathProblem_def solve_result_def)
next
  case (Responded body p)
  then show ?thesis
    by (cases body) (auto simp: solveMathProblem_def solve_result_def)
qed

theorem solveMathProblem_result_cases_witness:
  "snd (solveMathProblem (Some ''AAAA'') (Some ''image/png'') example_reply) = Inr example_solution"
  using solveMathProblem_result_cases [of "Some ''AAAA''" "Some ''image/png''" example_reply
      example_solution]
  by (simp add: example_reply_def example_solution_text_def quoted_def)

lemma prompts_distinct:
  "easy_prompt \<noteq> medium_prompt" "hard_prompt \<noteq> medium_prompt" "easy_prompt \<noteq> hard_prompt"
  by (simp_all add: easy_prompt_def medium_prompt_def hard_prompt_def)

text \<open>
  Claim C5, as stated, fails: given the value \<^verbatim>\<open>'Extreme'\<close>, which is none of Easy, Medium
  and Hard, \<^verbatim>\<open>generatePracticeQuestion\<close> sends a request, with the Medium prompt, and
  returns the service's question.
\<close>

theorem generatePracticeQuestion_invalid_difficulty:
  "generatePracticeQuestion (JString ''Extreme'')
     (Responded (Some second_question_text) (Inr second_question))
   = ([QuestionRequest medium_prompt], Inr second_question)"
  by (simp add: generatePracticeQuestion_def difficultyPrompt_def question_result_def
      second_question_text_def quoted_def)

text \<open>
  Claim C5, amended. \<^verbatim>\<open>generatePracticeQuestion\<close> validates nothing at run time (only
  the parameter's compile-time type restricts the callers): for every value it sends
  exactly one request, with the Easy prompt for \<^verbatim>\<open>'Easy'\<close>, the Hard prompt for
  \<^verbatim>\<open>'Hard'\<close>, and the Medium prompt for every other value, \<^verbatim>\<open>'Medium'\<close>, an unspecified
  and an unrecognised one alike; its result is decided by the reply alone.
\<close>

theorem generatePracticeQuestion_always_requests:
  "(\<exists>p. fst (generatePracticeQuestion d r) = [QuestionRequest p]
        \<and> (p = easy_prompt \<longleftrightarrow> d = JString ''Easy'')
        \<and> (p = hard_prompt \<longleftrightarrow> d = JString ''Hard'')
        \<and> (p = medium_prompt \<longleftrightarrow> d \<noteq> JString ''Easy'' \<and> d \<noteq> JString ''Hard''))
   \<and> snd (generatePracticeQuestion d r) = question_result r"
  using prompts_distinct
  by (auto simp: generatePracticeQuestion_def difficultyPrompt_def)

theorem generatePracticeQuestion_always_requests_witness:
  "fst (generatePracticeQuestion JUndefined (Rejected (Thrown ''Failed to fetch'')))
     = [QuestionRequest medium_prompt]
   \<and> snd (generatePracticeQuestion JUndefined (Rejected (Thrown ''Failed to fetch'')))
     = Inl (Thrown ''Failed to fetch'')"
  using generatePracticeQuestion_always_requests [of JUndefined "Rejected (Thrown ''Failed to fetch'')"]
  by (auto simp: question_result_def)

section \<open>The solution display: theorems\<close>

text \<open>
  Claim C9. For every solution whose \<^verbatim>\<open>cleanedLatex\<close> is a string or is absent (not in
  the object, \<^verbatim>\<open>null\<close>, or the empty string), the expression displayed is
  \<^verbatim>\<open>cleanedLatex\<close> when it is present and \<^verbatim>\<open>originalLatex\<close> exactly when it is absent.
\<close>

theorem displayed_latex_fallback:
  assumes "is_string (get_field ''cleanedLatex'' sol) \<or> absent (get_field ''cleanedLatex'' sol)"
  shows "displayed_latex sol =
           (if absent (get_field ''cleanedLatex'' sol) then get_field ''originalLatex'' sol
            else get_field ''cleanedLatex'' sol)"
  using assms
  by (cases "get_field ''cleanedLatex'' sol")
     (auto simp: displayed_latex_def js_or_def absent_def is_string_def)

theorem displayed_latex_fallback_witness:
  "displayed_latex (JObject [(''originalLatex'', JString ''x+1 = 2''), (''cleanedLatex'', JString ''x+1=2'')])
     = JString ''x+1=2''
   \<and> displayed_latex (JObject [(''originalLatex'', JString ''x+1 = 2''), (''cleanedLatex'', JString [])])
     = JString ''x+1 = 2''
   \<and> displayed_latex (JObject [(''originalLatex'', JString ''x+1 = 2'')]) = JString ''x+1 = 2''"
  using
    displayed_latex_fallback [of "JObject [(''originalLatex'', JString ''x+1 = 2''), (''cleanedLatex'', JString ''x+1=2'')]"]
    displayed_latex_fallback [of "JObject [(''originalLatex'', JString ''x+1 = 2''), (''cleanedLatex'', JString [])]"]
    displayed_latex_fallback [of "JObject [(''originalLatex'', JString ''x+1 = 2'')]"]
  by (simp add: absent_def is_string_def)

section \<open>The practice session: theorems\<close>

lemma handleSubmit_blocked: "submit_blocked s \<Longrightarrow> handleSubmit r s = s"
  by (auto simp: handleSubmit_def submit_blocked_def)

lemma handleSubmit_request:
  assumes "\<not> submit_blocked s"
  shows "requests_sent (handleSubmit r s)
           = requests_sent s
             @ [GradeRequest (get_field ''latex'' (question s)) (userAnswer s)
                  (truthy_str (answer_image_data (answerImage s))) (attached_image (answerImage s))]"
proof (cases "answerImage s")
  case None
  with assms show ?thesis
    by (auto simp: handleSubmit_def submit_blocked_def gradeAnswer_def attached_image_def
        answer_image_data_def answer_image_type_def Let_def split: sum.splits)
next
  case (Some img)
  have e: "img = [] \<Longrightarrow> base64Data_of img = None \<and> mimeType_of img = None"
    by (simp add: base64Data_of_def mimeType_of_def js_index_def)
  from Some assms e show ?thesis
    by (cases "base64Data_of img"; cases "mimeType_of img")
       (auto simp: handleSubmit_def submit_blocked_def gradeAnswer_def attached_image_def
        answer_image_data_def answer_image_type_def Let_def split: sum.splits)
qed

lemma handleSubmit_fields:
  assumes "\<not> submit_blocked s"
  shows "question (handleSubmit r s) = question s
         \<and> userAnswer (handleSubmit r s) = userAnswer s
         \<and> answerImage (handleSubmit r s) = answerImage s
         \<and> loading (handleSubmit r s) = loading s
         \<and> difficulty (handleSubmit r s) = difficulty s
         \<and> isGrading (handleSubmit r s) = False
         \<and> grading (handleSubmit r s)
             = (case grade_result r of Inr result \<Rightarrow> result | Inl e \<Rightarrow> grading s)
         \<and> console_log (handleSubmit r s)
             = (case grade_result r of Inr result \<Rightarrow> console_log s
                | Inl e \<Rightarrow> console_log s @ [e])"
  using assms
  by (auto simp: handleSubmit_def submit_blocked_def gradeAnswer_def Let_def split: sum.splits)

lemma accepted_iff:
  "submit_accepted s \<longleftrightarrow> \<not> control_disabled c s \<and> \<not> submit_blocked s"
  by (cases c)
     (auto simp: submit_accepted_def submit_blocked_def submit_button_disabled_def
        answer_field_disabled_def)

text \<open>
  \<^verbatim>\<open>handleSubmit\<close> itself tests the question and the answer only, not the grading
  result: handed a graded round, it would grade again. The page never does that, as the
  next theorem shows; the check for a graded round is the \<^verbatim>\<open>disabled\<close> attribute of
  the two controls.
\<close>

lemma handleSubmit_ignores_grading:
  "truthy (grading graded_round)
   \<and> requests_sent graded_round = []
   \<and> requests_sent (handleSubmit (Responded (Some second_grading_text) (Inr second_grading)) graded_round)
       = [GradeRequest (JString ''2x+3=7'') answer_x_is_2 False None]
   \<and> grading (handleSubmit (Responded (Some second_grading_text) (Inr second_grading)) graded_round)
       = second_grading
   \<and> second_grading \<noteq> grading graded_round"
  by (simp add: handleSubmit_def graded_round_def answered_round_def fresh_round_def
      example_question_def example_grading_def second_grading_def second_grading_text_def
      quoted_def gradeAnswer_def grade_result_def js_trim_def is_space_def answer_x_is_2_def
      Let_def)

text \<open>
  Claim C4. A submit, from the send button or the Enter key, is accepted only when a
  question is active, the round is not graded yet and the answer has text (other than
  white space) or an image, and no request of the round is in flight; otherwise nothing
  happens: no request, no change. In particular a submit on a round whose grading result
  is set is rejected. An accepted submit sends exactly one grading request, for the
  round's question and answer, and keeps the question, the answer text and the answer
  image; on success the service's result becomes the grading result; on failure the
  grading result stays unset, the exception is logged, the grading flag is off again and
  the round accepts a submit again, so the same answer can be resubmitted.
\<close>

theorem submitAnswer_precondition:
  "(\<not> submit_accepted s \<longrightarrow> submitAnswer c r s = s)
   \<and> (truthy (grading s) \<longrightarrow> submitAnswer c r s = s)
   \<and> (submit_accepted s \<longrightarrow>
        requests_sent (submitAnswer c r s)
          = requests_sent s
            @ [GradeRequest (get_field ''latex'' (question s)) (userAnswer s)
                 (truthy_str (answer_image_data (answerImage s))) (attached_image (answerImage s))]
        \<and> question (submitAnswer c r s) = question s
        \<and> userAnswer (submitAnswer c r s) = userAnswer s
        \<and> answerImage (submitAnswer c r s) = answerImage s
        \<and> loading (submitAnswer c r s) = False
        \<and> isGrading (submitAnswer c r s) = False
        \<and> difficulty (submitAnswer c r s) = difficulty s
        \<and> grading (submitAnswer c r s)
            = (case grade_result r of Inr result \<Rightarrow> result | Inl e \<Rightarrow> grading s)
        \<and> console_log (submitAnswer c r s)
            = (case grade_result r of Inr result \<Rightarrow> console_log s
               | Inl e \<Rightarrow> console_log s @ [e])
        \<and> ((\<exists>e. grade_result r = Inl e) \<longrightarrow> submit_accepted (submitAnswer c r s)))"
proof -
  have rej: "submitAnswer c r s = s" if "\<not> submit_accepted s"
    using that accepted_iff [of s c] handleSubmit_blocked [of s r]
    by (auto simp: submitAnswer_def)
  have graded: "submitAnswer c r s = s" if "truthy (grading s)"
    using that rej by (auto simp: submit_accepted_def)
  have acc: "requests_sent (submitAnswer c r s)
          = requests_sent s
            @ [GradeRequest (get_field ''latex'' (question s)) (userAnswer s)
                 (truthy_str (answer_image_data (answerImage s))) (attached_image (answerImage s))]
        \<and> question (submitAnswer c r s) = question s
        \<and> userAnswer (submitAnswer c r s) = userAnswer s
        \<and> answerImage (submitAnswer c r s) = answerImage s
        \<and> loading (submitAnswer c r s) = False
        \<and> isGrading (submitAnswer c r s) = False
        \<and> difficulty (submitAnswer c r s) = difficulty s
        \<and> grading (submitAnswer c r s)
            = (case grade_result r of Inr result \<Rightarrow> result | Inl e \<Rightarrow> grading s)
        \<and> console_log (submitAnswer c r s)
            = (case grade_result r of Inr result \<Rightarrow> console_log s
               | Inl e \<Rightarrow> console_log s @ [e])
        \<and> ((\<exists>e. grade_result r = Inl e) \<longrightarrow> submit_accepted (submitAnswer c r s))"
    if a: "submit_accepted s"
  proof -
    from a accepted_iff [of s c] have en: "\<not> control_disabled c s" and nb: "\<not> submit_blocked s"
      by auto
    from en have eq: "submitAnswer c r s = handleSubmit r s"
      by (simp add: submitAnswer_def)
    from a have nl: "\<not> loading s" by (simp add: submit_accepted_def)
    show ?thesis
      using handleSubmit_request [OF nb, of r] handleSubmit_fields [OF nb, of r] a nl
      by (auto simp: eq submit_accepted_def)
  qed
  from rej graded acc show ?thesis by blast
qed


lemma answered_accepted: "submit_accepted answered_round"
  by (simp add: submit_accepted_def answered_round_def fresh_round_def example_question_def
      answer_x_is_2_def js_trim_def is_space_def)

lemma graded_not_accepted: "truthy (grading graded_round)"
  by (simp add: graded_round_def example_grading_def)

lemma blank_not_accepted: "\<not> submit_accepted blank_round"
  by (simp add: submit_accepted_def blank_round_def fresh_round_def answer_nbsp_def
      js_trim_def is_space_def)

lemma example_grade_result:
  "grade_result (Responded (Some example_grading_text) (Inr example_grading)) = Inr example_grading"
  by (simp add: grade_result_def example_grading_text_def quoted_def)

theorem submitAnswer_precondition_witness:
  "submitAnswer SendButton (Responded (Some second_grading_text) (Inr second_grading)) graded_round
     = graded_round
   \<and> submitAnswer EnterKey (Responded (Some second_grading_text) (Inr second_grading)) graded_round
     = graded_round
   \<and> submitAnswer EnterKey (Responded (Some example_grading_text) (Inr example_grading)) blank_round
     = blank_round
   \<and> grading (submitAnswer SendButton (Responded (Some example_grading_text) (Inr example_grading))
        answered_round) = example_grading
   \<and> requests_sent (submitAnswer SendButton (Rejected (Thrown ''Failed to fetch'')) answered_round)
     = [GradeRequest (JString ''2x+3=7'') answer_x_is_2 False None]
   \<and> userAnswer (submitAnswer SendButton (Rejected (Thrown ''Failed to fetch'')) answered_round)
     = answer_x_is_2
   \<and> grading (submitAnswer SendButton (Rejected (Thrown ''Failed to fetch'')) answered_round) = JNull
   \<and> submit_accepted (submitAnswer SendButton (Rejected (Thrown ''Failed to fetch'')) answered_round)"
  using
    submitAnswer_precondition [of graded_round SendButton
      "Responded (Some second_grading_text) (Inr second_grading)"]
    submitAnswer_precondition [of graded_round EnterKey
      "Responded (Some second_grading_text) (Inr second_grading)"]
    submitAnswer_precondition [of blank_round EnterKey
      "Responded (Some example_grading_text) (Inr example_grading)"]
    submitAnswer_precondition [of answered_round SendButton
      "Responded (Some example_grading_text) (Inr example_grading)"]
    submitAnswer_precondition [of answered_round SendButton "Rejected (Thrown ''Failed to fetch'')"]
    answered_accepted graded_not_accepted blank_not_accepted example_grade_result
  by (simp add: grade_result_def answered_round_def fresh_round_def example_question_def
      attached_image_def answer_image_data_def answer_image_type_def)

text \<open>
  When a changed level starts a request and when it only stores the level: for a level
  other than the current one, a question of that level is requested exactly when the
  round is untouched, and when that request succeeds the new state is the one
  \<^verbatim>\<open>fetchQuestion\<close> gives at that level; on a round that is not untouched the level is the
  only thing that changes.
\<close>

lemma handleDifficultyChange_policy:
  assumes "level \<noteq> difficulty s"
  shows "(untouched s \<longrightarrow>
            requests_sent (handleDifficultyChange level r s)
              = requests_sent s @ [QuestionRequest (difficultyPrompt (difficulty_value level))]
            \<and> difficulty (handleDifficultyChange level r s) = level
            \<and> (\<forall>q. question_result r = Inr q \<longrightarrow>
                  handleDifficultyChange level r s
                    = s\<lparr>question := q, loading := False, difficulty := level,
                        requests_sent := requests_sent s
                          @ [QuestionRequest (difficultyPrompt (difficulty_value level))]\<rparr>)
            \<and> (\<forall>q. question_result r = Inr q \<and> grading s = JNull \<and> answerImage s = None \<longrightarrow>
                  handleDifficultyChange level r s = fetchQuestion r (s\<lparr>difficulty := level\<rparr>))
            \<and> (\<forall>e. question_result r = Inl e \<longrightarrow>
                  handleDifficultyChange level r s
                    = s\<lparr>loading := True, difficulty := level,
                        requests_sent := requests_sent s
                          @ [QuestionRequest (difficultyPrompt (difficulty_value level))]\<rparr>))
         \<and> (\<not> untouched s \<longrightarrow> handleDifficultyChange level r s = s\<lparr>difficulty := level\<rparr>)"
  using assms
  by (auto simp: handleDifficultyChange_def untouched_def fetchQuestion_def
      generatePracticeQuestion_def Let_def split: sum.splits)

lemma fresh_untouched: "untouched fresh_round"
  by (simp add: untouched_def fresh_round_def)

lemma graded_touched: "\<not> untouched graded_round"
  by (simp add: untouched_def graded_round_def answered_round_def fresh_round_def
      example_grading_def)

lemma handleDifficultyChange_policy_example:
  "Hard \<noteq> difficulty fresh_round
   \<and> untouched fresh_round
   \<and> requests_sent (handleDifficultyChange Hard
        (Responded (Some second_question_text) (Inr second_question)) fresh_round)
       = [QuestionRequest hard_prompt]
   \<and> question (handleDifficultyChange Hard
        (Responded (Some second_question_text) (Inr second_question)) fresh_round)
       = second_question
   \<and> \<not> untouched graded_round
   \<and> handleDifficultyChange Hard
        (Responded (Some second_question_text) (Inr second_question)) graded_round
       = graded_round\<lparr>difficulty := Hard\<rparr>"
proof -
  have d1: "Hard \<noteq> difficulty fresh_round" by (simp add: fresh_round_def)
  have d2: "Hard \<noteq> difficulty graded_round"
    by (simp add: graded_round_def answered_round_def fresh_round_def)
  have res: "question_result (Responded (Some second_question_text) (Inr second_question))
               = Inr second_question"
    by (simp add: question_result_def second_question_text_def quoted_def)
  show ?thesis
    using handleDifficultyChange_policy [OF d1,
        of "Responded (Some second_question_text) (Inr second_question)"]
      handleDifficultyChange_policy [OF d2,
        of "Responded (Some second_question_text) (Inr second_question)"]
      d1 fresh_untouched graded_touched res
    by (simp add: difficultyPrompt_def fresh_round_def)
qed

text \<open>
  Claim C6 names a defect of the code. On an untouched round the handler requests the
  question itself instead of calling \<^verbatim>\<open>fetchQuestion\<close>, with a \<^verbatim>\<open>then\<close> and no \<^verbatim>\<open>catch\<close>
  or \<^verbatim>\<open>finally\<close>: when the request fails, the new round that \<^verbatim>\<open>fetchQuestion\<close> would
  give (error logged, loading off) is not what results. The loading flag stays on,
  nothing is logged, and the answer field and the send button stay disabled.
\<close>

theorem handleDifficultyChange_failure_leaves_loading:
  "handleDifficultyChange Hard (Rejected (Thrown ''Failed to fetch'')) fresh_round
     = fresh_round\<lparr>loading := True, difficulty := Hard,
         requests_sent := [QuestionRequest hard_prompt]\<rparr>
   \<and> fetchQuestion (Rejected (Thrown ''Failed to fetch'')) (fresh_round\<lparr>difficulty := Hard\<rparr>)
     = fresh_round\<lparr>difficulty := Hard, console_log := [Thrown ''Failed to fetch''],
         requests_sent := [QuestionRequest hard_prompt]\<rparr>
   \<and> loading (handleDifficultyChange Hard (Rejected (Thrown ''Failed to fetch'')) fresh_round)
   \<and> answer_field_disabled
        (handleDifficultyChange Hard (Rejected (Thrown ''Failed to fetch'')) fresh_round)
   \<and> submit_button_disabled
        (handleDifficultyChange Hard (Rejected (Thrown ''Failed to fetch'')) fresh_round)
   \<and> loading (fetchQuestion (Rejected (Thrown ''Failed to fetch''))
        (fresh_round\<lparr>difficulty := Hard\<rparr>)) = False"
  by (simp add: handleDifficultyChange_def fetchQuestion_def fresh_round_def
      generatePracticeQuestion_def question_result_def difficultyPrompt_def
      answer_field_disabled_def submit_button_disabled_def Let_def)


text \<open>
  Claim C8, as stated, fails: when the question request fails on a round that has a
  question, \<^verbatim>\<open>fetchQuestion\<close> leaves that question in place; the active question is
  not none afterwards.
\<close>

theorem fetchQuestion_failure_keeps_question:
  "question fresh_round = example_question
   \<and> example_question \<noteq> JNull
   \<and> question (fetchQuestion (Rejected (Thrown ''Failed to fetch'')) fresh_round) = example_question"
  by (simp add: fetchQuestion_def fresh_round_def example_question_def
      generatePracticeQuestion_def question_result_def Let_def)

text \<open>
  Claim C8, amended. \<^verbatim>\<open>fetchQuestion\<close> clears the grading result, the answer text and the
  answer image, requests one question of the current difficulty, and ends with the
  loading flag off. On success the question is replaced by the service's. On failure the
  question stays what it was before the call (none only if it was none), and the
  exception is handed to the console: the state records no error.
\<close>

theorem fetchQuestion_effect:
  "grading (fetchQuestion r s) = JNull
   \<and> userAnswer (fetchQuestion r s) = []
   \<and> answerImage (fetchQuestion r s) = None
   \<and> loading (fetchQuestion r s) = False
   \<and> requests_sent (fetchQuestion r s)
       = requests_sent s @ [QuestionRequest (difficultyPrompt (difficulty_value (difficulty s)))]
   \<and> question (fetchQuestion r s)
       = (case question_result r of Inr q \<Rightarrow> q | Inl e \<Rightarrow> question s)
   \<and> console_log (fetchQuestion r s)
       = (case question_result r of Inr q \<Rightarrow> console_log s | Inl e \<Rightarrow> console_log s @ [e])
   \<and> difficulty (fetchQuestion r s) = difficulty s
   \<and> isGrading (fetchQuestion r s) = isGrading s"
  by (simp add: fetchQuestion_def generatePracticeQuestion_def Let_def split: sum.splits)

theorem fetchQuestion_effect_witness:
  "question (fetchQuestion (Responded (Some second_question_text) (Inr second_question)) graded_round)
     = second_question
   \<and> grading (fetchQuestion (Responded (Some second_question_text) (Inr second_question)) graded_round)
     = JNull
   \<and> userAnswer (fetchQuestion (Responded (Some second_question_text) (Inr second_question)) graded_round)
     = []
   \<and> question (fetchQuestion (Rejected (Thrown ''Failed to fetch'')) graded_round) = example_question
   \<and> console_log (fetchQuestion (Rejected (Thrown ''Failed to fetch'')) graded_round)
     = [Thrown ''Failed to fetch'']"
  using fetchQuestion_effect [of "Responded (Some second_question_text) (Inr second_question)" graded_round]
    fetchQuestion_effect [of "Rejected (Thrown ''Failed to fetch'')" graded_round]
  by (simp add: question_result_def second_question_text_def quoted_def graded_round_def
      answered_round_def fresh_round_def)

end
